theory Spec2Isabelle
  imports Main
begin

section \<open>Drawing surface: values, commands and the trace of a run\<close>

text \<open>
  The script \<open>generate_gauges.py\<close> talks to an imaging library: it creates a canvas,
  issues draw calls on it and saves it. The embedding records every such call, in program
  order, as an event; a gauge is the list of events its code emits.

  Coordinates are either integers or the floating-point results of
  \<open>center + r * math.cos(math.radians(angle))\<close> and
  \<open>center + r * math.sin(math.radians(angle))\<close>. Floating point is not modelled: such a
  coordinate is recorded by the three integers that determine it (centre, radius, angle in
  degrees, the argument of \<open>math.radians\<close>).
\<close>

datatype coord =
    Lit int
  | CosPt int int int
  | SinPt int int int

text \<open>
  Optional keyword arguments (\<open>outline\<close>, \<open>width\<close>) are \<open>None\<close> where the call
  leaves them out. The constructor arguments follow the order of the calls:
  \<open>ellipse(xy, fill, outline, width)\<close>, \<open>pieslice(xy, start, end, fill, outline, width)\<close>,
  \<open>line(xy, fill, width)\<close>, \<open>text(xy, text, fill, anchor)\<close>,
  \<open>rectangle(xy, fill, outline, width)\<close>, \<open>polygon(xy, fill)\<close>.
\<close>

datatype command =
    Ellipse "int list" string "string option" "int option"
  | Pieslice "int list" int int string "string option" "int option"
  | Line "coord list" string int
  | Text "coord \<times> coord" string string string
  | Rectangle "int list" string "string option" "int option"
  | Polygon "(int \<times> int) list" string

datatype event =
    New_image string "int \<times> int" "int \<times> int \<times> int \<times> int"
  | Draw command
  | Save string string
  | Print string

subsection \<open>Python's \<open>range(start, stop, step)\<close>\<close>

text \<open>
  The source calls \<open>range\<close> with the steps 10 and 30 only. For a step that is not
  positive the model returns the empty list (Python counts down for a negative step and
  raises \<open>ValueError\<close> for 0; neither is reached).
\<close>

function range3 :: "int \<Rightarrow> int \<Rightarrow> int \<Rightarrow> int list" where
  "range3 start stop step =
     (if 0 < step \<and> start < stop then start # range3 (start + step) stop step else [])"
  by pat_completeness auto
termination
  by (relation "measure (\<lambda>(start, stop, step). nat (stop - start))") auto

declare range3.simps [simp del]

section \<open>\<open>create_gauge\<close> (source lines 7 to 95)\<close>

text \<open>The \<open>if/elif/else\<close> on \<open>gauge_type\<close> of lines 28 to 45, one variable at a time.\<close>

definition cg_start_angle :: "string \<Rightarrow> int" where
  "cg_start_angle gauge_type =
     (if gauge_type = ''fuel'' then 180 else if gauge_type = ''compass'' then 0 else -120)"

definition cg_end_angle :: "string \<Rightarrow> int" where
  "cg_end_angle gauge_type =
     (if gauge_type = ''fuel'' then 360 else if gauge_type = ''compass'' then 360 else 120)"

definition cg_angles :: "string \<Rightarrow> int list" where
  "cg_angles gauge_type =
     (if gauge_type = ''fuel''
        then range3 (cg_start_angle gauge_type) (cg_end_angle gauge_type + 1) 30
      else if gauge_type = ''compass'' then range3 0 360 30
      else range3 (cg_start_angle gauge_type) (cg_end_angle gauge_type + 1) 30)"

definition cg_labels :: "string \<Rightarrow> string list" where
  "cg_labels gauge_type =
     (if gauge_type = ''fuel'' then [''E'', '''', '''', '''', '''', '''', ''F'']
      else if gauge_type = ''compass''
        then [''N'', '''', '''', ''E'', '''', '''', ''S'', '''', '''', ''W'', '''', '''']
      else [''0'', '''', '''', '''', ''50'', '''', '''', '''', ''100''])"

text \<open>Lines 67 to 73.\<close>

definition cg_minor_angles :: "string \<Rightarrow> int list" where
  "cg_minor_angles gauge_type =
     (if gauge_type = ''fuel'' then range3 180 361 10
      else if gauge_type = ''compass'' then range3 0 360 10
      else range3 (-120) 121 10)"

text \<open>
  The call \<open>draw.textbbox\<close> of line 63 only measures a text and its result is not used;
  it draws nothing and has no event.
\<close>

definition create_gauge :: "string \<Rightarrow> string \<Rightarrow> string \<Rightarrow> string \<Rightarrow> event list" where
  "create_gauge filename gauge_type title subtitle =
     (let size = 400;
          center = size div 2;
          outer_radius = 180;
          inner_radius = (140 :: int);
          angles = cg_angles gauge_type;
          labels = cg_labels gauge_type;
          minor_angles = cg_minor_angles gauge_type
      in [New_image ''RGBA'' (size, size) (255, 255, 255, 0),
          Draw (Ellipse [20, 20, size - 20, size - 20] ''#1a1a2e'' (Some ''#0f3460'') (Some 3)),
          Draw (Ellipse [60, 60, size - 60, size - 60] ''#16213e'' (Some ''#0f3460'') (Some 2))]
         @ concat (map (\<lambda>(i, angle).
              Draw (Line [CosPt center (outer_radius - 25) angle,
                          SinPt center (outer_radius - 25) angle,
                          CosPt center (outer_radius - 10) angle,
                          SinPt center (outer_radius - 10) angle] ''#e94560'' 3)
              # (if i < length labels \<and> labels ! i \<noteq> ''''
                 then [Draw (Text (CosPt center (outer_radius - 45) angle,
                                   SinPt center (outer_radius - 45) angle)
                              (labels ! i) ''#ffffff'' ''mm'')]
                 else []))
            (enumerate 0 angles))
         @ concat (map (\<lambda>angle.
              if angle \<notin> set angles
              then [Draw (Line [CosPt center (outer_radius - 20) angle,
                                SinPt center (outer_radius - 20) angle,
                                CosPt center (outer_radius - 10) angle,
                                SinPt center (outer_radius - 10) angle] ''#533483'' 2)]
              else [])
            minor_angles)
         @ [Draw (Ellipse [center - 15, center - 15, center + 15, center + 15]
                    ''#2d2d44'' (Some ''#e94560'') (Some 2))]
         @ (if title \<noteq> '''' then [Draw (Text (Lit center, Lit 80) title ''#ffffff'' ''mm'')]
            else [])
         @ (if subtitle \<noteq> ''''
            then [Draw (Text (Lit center, Lit 320) subtitle ''#aaaaaa'' ''mm'')] else [])
         @ [Save filename ''PNG'', Print (''Created '' @ filename)])"

section \<open>The thrust gauge (module level, source lines 103 to 174)\<close>

definition thrust_angles_original :: "int list" where
  "thrust_angles_original = range3 (-120) 121 30"

definition thrust_labels :: "string list" where
  "thrust_labels = [''0'', '''', '''', '''', ''50'', '''', '''', '''', ''100'']"

definition thrust_minor_angles_original :: "int list" where
  "thrust_minor_angles_original = range3 (-120) 121 10"

text \<open>The degree sign of the last message is the one character U+00B0.\<close>

definition thrust_gauge :: "event list" where
  "thrust_gauge =
     (let center = 200;
          outer_radius = 180;
          angles_original = thrust_angles_original;
          labels = thrust_labels;
          minor_angles_original = thrust_minor_angles_original
      in [New_image ''RGBA'' (400, 400) (255, 255, 255, 0),
          Draw (Ellipse [20, 20, 380, 380] ''#ffffff'' (Some ''#cccccc'') (Some 3)),
          Draw (Pieslice [60, 60, 340, 340] 150 230 ''#fca5a5'' (Some ''#dc2626'') (Some 2)),
          Draw (Pieslice [60, 60, 340, 340] 230 310 ''#fde68a'' (Some ''#fbbf24'') (Some 2)),
          Draw (Pieslice [60, 60, 340, 340] 310 390 ''#bbf7d0'' (Some ''#22c55e'') (Some 2)),
          Draw (Ellipse [100, 100, 300, 300] ''#ffffff'' (Some ''#cccccc'') (Some 2))]
         @ concat (map (\<lambda>(i, angle_orig).
              let angle = angle_orig + 90 + 180 in
              Draw (Line [CosPt center (outer_radius - 25) angle,
                          SinPt center (outer_radius - 25) angle,
                          CosPt center (outer_radius - 10) angle,
                          SinPt center (outer_radius - 10) angle] ''#000000'' 3)
              # (if i < length labels \<and> labels ! i \<noteq> ''''
                 then [Draw (Text (CosPt center (outer_radius - 45) angle,
                                   SinPt center (outer_radius - 45) angle)
                              (labels ! i) ''#000000'' ''mm'')]
                 else []))
            (enumerate 0 angles_original))
         @ concat (map (\<lambda>angle_orig.
              let angle = angle_orig + 90 + 180 in
              if angle_orig \<notin> set angles_original
              then [Draw (Line [CosPt center (outer_radius - 20) angle,
                                SinPt center (outer_radius - 20) angle,
                                CosPt center (outer_radius - 10) angle,
                                SinPt center (outer_radius - 10) angle] ''#666666'' 2)]
              else [])
            minor_angles_original)
         @ [Draw (Text (Lit center, Lit 70) ''THRUST'' ''#000000'' ''mm''),
            Draw (Text (Lit center, Lit 330) ''Power'' ''#666666'' ''mm''),
            Draw (Ellipse [center - 15, center - 15, center + 15, center + 15]
                    ''#cccccc'' (Some ''#000000'') (Some 2)),
            Save ''images/thrust-gauge.png'' ''PNG'',
            Print (''Created images/thrust-gauge.png (white background with color zones, rotated 90''
                   @ [CHR 0xB0] @ '' CCW)'')])"

section \<open>\<open>create_standard_color_gauge\<close> (source lines 177 to 237)\<close>

definition cscg_angles_original :: "int list" where
  "cscg_angles_original = range3 (-120) 121 30"

definition cscg_labels :: "string list" where
  "cscg_labels = [''0'', '''', '''', '''', ''50'', '''', '''', '''', ''100'']"

definition cscg_minor_angles_original :: "int list" where
  "cscg_minor_angles_original = range3 (-120) 121 10"

definition create_standard_color_gauge :: "string \<Rightarrow> string \<Rightarrow> string \<Rightarrow> event list" where
  "create_standard_color_gauge filename title subtitle =
     (let center = 200;
          outer_radius = 180;
          angles_original = cscg_angles_original;
          labels = cscg_labels;
          minor_angles_original = cscg_minor_angles_original
      in [New_image ''RGBA'' (400, 400) (255, 255, 255, 0),
          Draw (Ellipse [20, 20, 380, 380] ''#ffffff'' (Some ''#cccccc'') (Some 3)),
          Draw (Pieslice [60, 60, 340, 340] 150 230 ''#fca5a5'' (Some ''#dc2626'') (Some 2)),
          Draw (Pieslice [60, 60, 340, 340] 230 310 ''#fde68a'' (Some ''#fbbf24'') (Some 2)),
          Draw (Pieslice [60, 60, 340, 340] 310 390 ''#bbf7d0'' (Some ''#22c55e'') (Some 2)),
          Draw (Ellipse [100, 100, 300, 300] ''#ffffff'' (Some ''#cccccc'') (Some 2))]
         @ concat (map (\<lambda>(i, angle_orig).
              let angle = angle_orig + 90 + 180 in
              Draw (Line [CosPt center (outer_radius - 25) angle,
                          SinPt center (outer_radius - 25) angle,
                          CosPt center (outer_radius - 10) angle,
                          SinPt center (outer_radius - 10) angle] ''#000000'' 3)
              # (if i < length labels \<and> labels ! i \<noteq> ''''
                 then [Draw (Text (CosPt center (outer_radius - 45) angle,
                                   SinPt center (outer_radius - 45) angle)
                              (labels ! i) ''#000000'' ''mm'')]
                 else []))
            (enumerate 0 angles_original))
         @ concat (map (\<lambda>angle_orig.
              let angle = angle_orig + 90 + 180 in
              if angle_orig \<notin> set angles_original
              then [Draw (Line [CosPt center (outer_radius - 20) angle,
                                SinPt center (outer_radius - 20) angle,
                                CosPt center (outer_radius - 10) angle,
                                SinPt center (outer_radius - 10) angle] ''#666666'' 2)]
              else [])
            minor_angles_original)
         @ [Draw (Text (Lit center, Lit 70) title ''#000000'' ''mm''),
            Draw (Text (Lit center, Lit 330) subtitle ''#666666'' ''mm''),
            Draw (Ellipse [center - 15, center - 15, center + 15, center + 15]
                    ''#cccccc'' (Some ''#000000'') (Some 2)),
            Save filename ''PNG'',
            Print (''Created '' @ filename @ '' (white background with color zones)'')])"

section \<open>The fuel gauge (module level, source lines 245 to 330)\<close>

definition fuel_start_angle :: int where
  "fuel_start_angle = 270"

definition fuel_end_angle :: int where
  "fuel_end_angle = 90"

definition fuel_angles :: "int list" where
  "fuel_angles = [270, 300, 330, 0, 30, 60, 90]"

definition fuel_labels :: "string list" where
  "fuel_labels = [''F'', '''', '''', '''', '''', '''', ''E'']"

definition fuel_minor_angles :: "int list" where
  "fuel_minor_angles = range3 270 360 10 @ range3 0 91 10"

text \<open>The pump icon of lines 303 to 320: five draw calls.\<close>

definition fuel_icon :: "command list" where
  "fuel_icon =
     (let center = 200;
          pump_x = center - 60;
          pump_y = center - 10;
          droplet_top_x = pump_x;
          droplet_top_y = pump_y + 5
      in [Rectangle [pump_x - 20, pump_y - 25, pump_x + 20, pump_y + 25]
            ''#666666'' (Some ''#333333'') None,
          Rectangle [pump_x - 25, pump_y - 15, pump_x - 20, pump_y - 5]
            ''#666666'' (Some ''#333333'') None,
          Rectangle [pump_x - 12, pump_y - 15, pump_x + 12, pump_y - 5]
            ''#ffffff'' (Some ''#333333'') (Some 1),
          Ellipse [droplet_top_x - 6, droplet_top_y, droplet_top_x + 6, droplet_top_y + 12]
            ''#666666'' None None,
          Polygon [(droplet_top_x, droplet_top_y - 8), (droplet_top_x - 6, droplet_top_y),
                   (droplet_top_x + 6, droplet_top_y)] ''#666666''])"

definition fuel_gauge :: "event list" where
  "fuel_gauge =
     (let center = 200;
          outer_radius = 180;
          angles = fuel_angles;
          labels = fuel_labels;
          minor_angles = fuel_minor_angles
      in [New_image ''RGBA'' (400, 400) (255, 255, 255, 0),
          Draw (Ellipse [20, 20, 380, 380] ''#ffffff'' (Some ''#cccccc'') (Some 3)),
          Draw (Pieslice [60, 60, 340, 340] 270 330 ''#bbf7d0'' (Some ''#22c55e'') (Some 2)),
          Draw (Pieslice [60, 60, 340, 340] 330 30 ''#fde68a'' (Some ''#fbbf24'') (Some 2)),
          Draw (Pieslice [60, 60, 340, 340] 30 90 ''#fca5a5'' (Some ''#dc2626'') (Some 2)),
          Draw (Ellipse [100, 100, 300, 300] ''#ffffff'' (Some ''#cccccc'') (Some 2))]
         @ concat (map (\<lambda>(i, angle).
              Draw (Line [CosPt center (outer_radius - 25) angle,
                          SinPt center (outer_radius - 25) angle,
                          CosPt center (outer_radius - 10) angle,
                          SinPt center (outer_radius - 10) angle] ''#000000'' 3)
              # (if i < length labels \<and> labels ! i \<noteq> ''''
                 then [Draw (Text (CosPt center (outer_radius - 45) angle,
                                   SinPt center (outer_radius - 45) angle)
                              (labels ! i) ''#000000'' ''mm'')]
                 else []))
            (enumerate 0 angles))
         @ concat (map (\<lambda>angle.
              if angle \<notin> set angles
              then [Draw (Line [CosPt center (outer_radius - 20) angle,
                                SinPt center (outer_radius - 20) angle,
                                CosPt center (outer_radius - 10) angle,
                                SinPt center (outer_radius - 10) angle] ''#666666'' 2)]
              else [])
            minor_angles)
         @ map Draw fuel_icon
         @ [Draw (Text (Lit center, Lit 70) ''FUEL'' ''#000000'' ''mm''),
            Draw (Text (Lit center, Lit 330) ''Energy Level'' ''#666666'' ''mm''),
            Draw (Ellipse [center - 15, center - 15, center + 15, center + 15]
                    ''#cccccc'' (Some ''#000000'') (Some 2)),
            Save ''images/fuel-gauge.png'' ''PNG'',
            Print ''Created images/fuel-gauge.png (white background with black fuel icon)''])"

section \<open>The horizon gauge (module level, source lines 335 to 369)\<close>

definition horizon_gauge :: "event list" where
  "horizon_gauge =
     (let center = 200
      in [New_image ''RGBA'' (400, 400) (255, 255, 255, 0),
          Draw (Ellipse [20, 20, 380, 380] ''#1a1a2e'' (Some ''#0f3460'') (Some 3)),
          Draw (Pieslice [60, 60, 340, 340] 180 360 ''#0066cc'' (Some ''#0f3460'') None),
          Draw (Pieslice [60, 60, 340, 340] 0 180 ''#8b4513'' (Some ''#0f3460'') None),
          Draw (Line [Lit 60, Lit center, Lit 340, Lit center] ''#ffffff'' 3),
          Draw (Line [Lit (center - 40), Lit center, Lit (center - 20), Lit center] ''#ffff00'' 4),
          Draw (Line [Lit (center + 20), Lit center, Lit (center + 40), Lit center] ''#ffff00'' 4),
          Draw (Ellipse [center - 8, center - 8, center + 8, center + 8]
                  ''#ffff00'' (Some ''#ff8800'') (Some 2))]
         @ concat (map (\<lambda>i.
              let y = center + i * 2 in
              if i \<noteq> 0
              then [Draw (Line [Lit 80, Lit y, Lit 100, Lit y] ''#ffffff'' 2),
                    Draw (Line [Lit 300, Lit y, Lit 320, Lit y] ''#ffffff'' 2)]
              else [])
            (range3 (-30) 31 10))
         @ [Draw (Text (Lit center, Lit 80) ''HORIZON'' ''#ffffff'' ''mm''),
            Draw (Text (Lit center, Lit 320) ''Attitude'' ''#aaaaaa'' ''mm''),
            Save ''images/horizon-gauge.png'' ''PNG'',
            Print ''Created images/horizon-gauge.png''])"

section \<open>The whole script, in program order\<close>

definition engine_gauge :: "event list" where
  "engine_gauge = create_standard_color_gauge ''images/engine-gauge.png'' ''ENGINE'' ''Condition''"

definition positive_gauge :: "event list" where
  "positive_gauge = create_standard_color_gauge ''images/positive-gauge.png'' ''POSITIVE'' ''Emotion''"

definition weight_gauge :: "event list" where
  "weight_gauge = create_standard_color_gauge ''images/weight-gauge.png'' ''WEIGHT'' ''Balance''"

definition negative_gauge :: "event list" where
  "negative_gauge = create_standard_color_gauge ''images/negative-gauge.png'' ''NEGATIVE'' ''Stress''"

definition compass_gauge :: "event list" where
  "compass_gauge = create_gauge ''images/compass-gauge.png'' ''compass'' ''COMPASS'' ''Direction''"

definition run :: "event list" where
  "run =
     [Print ''Generating gauge images...'']
     @ thrust_gauge
     @ engine_gauge @ positive_gauge @ weight_gauge @ negative_gauge
     @ fuel_gauge
     @ compass_gauge
     @ horizon_gauge
     @ [Print ([CHR 0x0A] @ ''All gauge images generated successfully!''),
        Print ''Images are saved in the 'images' folder'']"

text \<open>The eight gauges of the run, each with the events from its canvas to its message.\<close>

definition gauges :: "event list list" where
  "gauges = [thrust_gauge, engine_gauge, positive_gauge, weight_gauge, negative_gauge,
             fuel_gauge, compass_gauge, horizon_gauge]"

definition standard_color_family :: "event list list" where
  "standard_color_family =
     [thrust_gauge, engine_gauge, positive_gauge, weight_gauge, negative_gauge]"

section \<open>Reading a trace\<close>

definition draws :: "event list \<Rightarrow> command list" where
  "draws evs = concat (map (\<lambda>e. case e of Draw c \<Rightarrow> [c] | _ \<Rightarrow> []) evs)"

fun is_print :: "event \<Rightarrow> bool" where
  "is_print (Print m) = True"
| "is_print e = False"

fun is_canvas_or_save :: "event \<Rightarrow> bool" where
  "is_canvas_or_save (New_image m sz bg) = True"
| "is_canvas_or_save (Save f fmt) = True"
| "is_canvas_or_save e = False"

text \<open>A zone is a pie slice, a tick is a line.\<close>

fun is_zone :: "command \<Rightarrow> bool" where
  "is_zone (Pieslice xy s e f ol w) = True"
| "is_zone c = False"

fun is_tick :: "command \<Rightarrow> bool" where
  "is_tick (Line xy f w) = True"
| "is_tick c = False"

text \<open>
  The inner face is the ellipse on \<open>[100, 100, 300, 300]\<close> of the gauges with zones
  (lines 127, 195 and 265) and on \<open>[60, 60, size - 60, size - 60]\<close> in
  \<open>create_gauge\<close> (line 25).
\<close>

fun is_inner_face :: "command \<Rightarrow> bool" where
  "is_inner_face (Ellipse xy f ol w) = (xy = [100, 100, 300, 300] \<or> xy = [60, 60, 340, 340])"
| "is_inner_face c = False"

text \<open>
  A major tick starts at radius \<open>outer_radius - 25\<close>, a minor tick at
  \<open>outer_radius - 20\<close>; a label is a text at a point computed from an angle, a title is
  a text at integer coordinates.
\<close>

fun tick_at :: "int \<Rightarrow> command \<Rightarrow> int list" where
  "tick_at r (Line (CosPt c r' a # xy) f w) = (if r' = r then [a] else [])"
| "tick_at r c = []"

definition major_tick_angles :: "command list \<Rightarrow> int list" where
  "major_tick_angles cs = concat (map (tick_at (180 - 25)) cs)"

definition minor_tick_angles :: "command list \<Rightarrow> int list" where
  "minor_tick_angles cs = concat (map (tick_at (180 - 20)) cs)"

fun label_at :: "command \<Rightarrow> (int \<times> string) list" where
  "label_at (Text (CosPt c r a, y) t f an) = [(a, t)]"
| "label_at c = []"

definition labels_of :: "command list \<Rightarrow> (int \<times> string) list" where
  "labels_of cs = concat (map label_at cs)"

fun is_title :: "command \<Rightarrow> bool" where
  "is_title (Text (Lit x, Lit y) t f an) = True"
| "is_title c = False"

fun zone_at :: "command \<Rightarrow> (int \<times> int) list" where
  "zone_at (Pieslice xy s e f ol w) = [(s, e)]"
| "zone_at c = []"

definition zones_of :: "command list \<Rightarrow> (int \<times> int) list" where
  "zones_of cs = concat (map zone_at cs)"

subsection \<open>Overlay\<close>

text \<open>
  The commands drawn after the last tick and before the first title: the icon of the fuel
  gauge; the other gauges draw nothing there.
\<close>

definition overlay_of :: "command list \<Rightarrow> command list" where
  "overlay_of cs =
     rev (takeWhile (\<lambda>c. \<not> is_tick c) (rev (takeWhile (\<lambda>c. \<not> is_title c) cs)))"

subsection \<open>Order of zones, face and ticks\<close>

text \<open>From the first face or tick command on, no zone command follows.\<close>

fun zones_first :: "command list \<Rightarrow> bool" where
  "zones_first [] = True"
| "zones_first (c # cs) =
     (if is_inner_face c \<or> is_tick c then \<not> list_ex is_zone cs else zones_first cs)"

subsection \<open>Angles before the trigonometric conversion, and rotation\<close>

fun coords :: "command \<Rightarrow> coord list" where
  "coords (Line xy f w) = xy"
| "coords (Text (x, y) t f an) = [x, y]"
| "coords c = []"

fun is_polar :: "coord \<Rightarrow> bool" where
  "is_polar (Lit n) = False"
| "is_polar p = True"

definition polar_coords :: "command list \<Rightarrow> coord list" where
  "polar_coords cs = filter is_polar (concat (map coords cs))"

text \<open>Adding \<open>r\<close> degrees to the angle a coordinate is computed from.\<close>

fun rotate_coord :: "int \<Rightarrow> coord \<Rightarrow> coord" where
  "rotate_coord r (CosPt c rad a) = CosPt c rad (a + r)"
| "rotate_coord r (SinPt c rad a) = SinPt c rad (a + r)"
| "rotate_coord r (Lit n) = Lit n"

text \<open>An angle lies in the native frame of an arc type of \<open>create_gauge\<close>.\<close>

definition in_native_frame :: "string \<Rightarrow> int \<Rightarrow> bool" where
  "in_native_frame gauge_type a =
     (cg_start_angle gauge_type \<le> a \<and> a \<le> cg_end_angle gauge_type)"

subsection \<open>Spans of zones on the circle\<close>

definition norm360 :: "int \<Rightarrow> int" where
  "norm360 a = a mod 360"

text \<open>
  The span of a zone is the sweep from its normalised start to its normalised end. A zone
  covers the angles of that sweep, its end excluded.
\<close>

definition zone_span :: "int \<times> int \<Rightarrow> int" where
  "zone_span z = (norm360 (snd z) - norm360 (fst z)) mod 360"

definition covers :: "int \<times> int \<Rightarrow> int \<Rightarrow> bool" where
  "covers z a = ((a - norm360 (fst z)) mod 360 < zone_span z)"

text \<open>
  Two zones overlap when both are not empty and the start of one is covered by the other.
\<close>

definition overlap :: "int \<times> int \<Rightarrow> int \<times> int \<Rightarrow> bool" where
  "overlap z z' =
     (0 < zone_span z \<and> 0 < zone_span z' \<and>
      ((norm360 (fst z') - norm360 (fst z)) mod 360 < zone_span z \<or>
       (norm360 (fst z) - norm360 (fst z')) mod 360 < zone_span z'))"

fun pairs :: "'a list \<Rightarrow> ('a \<times> 'a) list" where
  "pairs [] = []"
| "pairs (x # xs) = map (Pair x) xs @ pairs xs"

definition zones_disjoint :: "(int \<times> int) list \<Rightarrow> bool" where
  "zones_disjoint zs = list_all (\<lambda>(z, z'). \<not> overlap z z') (pairs zs)"

section \<open>Evaluation of the ranges and of the gauges\<close>

lemma range3_m120_121_30: "range3 (-120) 121 30 = [-120, -90, -60, -30, 0, 30, 60, 90, 120]"
  by code_simp

lemma range3_m120_121_10:
  "range3 (-120) 121 10 = [-120, -110, -100, -90, -80, -70, -60, -50, -40, -30, -20, -10, 0,
     10, 20, 30, 40, 50, 60, 70, 80, 90, 100, 110, 120]"
  by code_simp

lemma range3_180_361_30: "range3 180 361 30 = [180, 210, 240, 270, 300, 330, 360]"
  by code_simp

lemma range3_180_361_10:
  "range3 180 361 10 = [180, 190, 200, 210, 220, 230, 240, 250, 260, 270, 280, 290, 300, 310,
     320, 330, 340, 350, 360]"
  by code_simp

lemma range3_0_360_30:
  "range3 0 360 30 = [0, 30, 60, 90, 120, 150, 180, 210, 240, 270, 300, 330]"
  by code_simp

lemma range3_0_360_10:
  "range3 0 360 10 = [0, 10, 20, 30, 40, 50, 60, 70, 80, 90, 100, 110, 120, 130, 140, 150, 160,
     170, 180, 190, 200, 210, 220, 230, 240, 250, 260, 270, 280, 290, 300, 310, 320, 330, 340,
     350]"
  by code_simp

lemma range3_270_360_10: "range3 270 360 10 = [270, 280, 290, 300, 310, 320, 330, 340, 350]"
  by code_simp

lemma range3_0_91_10: "range3 0 91 10 = [0, 10, 20, 30, 40, 50, 60, 70, 80, 90]"
  by code_simp

lemma range3_m30_31_10: "range3 (-30) 31 10 = [-30, -20, -10, 0, 10, 20, 30]"
  by code_simp

lemmas range3_eval = range3_m120_121_30 range3_m120_121_10 range3_180_361_30
  range3_180_361_10 range3_0_360_30 range3_0_360_10 range3_270_360_10 range3_0_91_10
  range3_m30_31_10

lemmas cg_defs = cg_start_angle_def cg_end_angle_def cg_angles_def cg_labels_def
  cg_minor_angles_def

lemmas thrust_defs = thrust_gauge_def thrust_angles_original_def thrust_labels_def
  thrust_minor_angles_original_def

lemmas cscg_defs = create_standard_color_gauge_def cscg_angles_original_def cscg_labels_def
  cscg_minor_angles_original_def

lemmas fuel_defs = fuel_gauge_def fuel_angles_def fuel_labels_def fuel_minor_angles_def
  fuel_icon_def

lemmas named_gauge_defs = engine_gauge_def positive_gauge_def weight_gauge_def
  negative_gauge_def compass_gauge_def

section \<open>Zones come before the inner face and the ticks\<close>

lemma run_gauges:
  "run = Print ''Generating gauge images...'' # concat gauges
     @ [Print ([CHR 0x0A] @ ''All gauge images generated successfully!''),
        Print ''Images are saved in the 'images' folder'']"
  by (simp add: run_def gauges_def)

lemma zones_first_thrust: "zones_first (draws thrust_gauge)"
  by (simp add: draws_def thrust_defs Let_def range3_eval)

lemma zones_first_cscg: "zones_first (draws (create_standard_color_gauge f t s))"
  by (simp add: draws_def cscg_defs Let_def range3_eval)

lemma zones_first_fuel: "zones_first (draws fuel_gauge)"
  by (simp add: draws_def fuel_defs Let_def range3_eval)

lemma zones_first_compass: "zones_first (draws compass_gauge)"
  by (simp add: draws_def compass_gauge_def create_gauge_def Let_def cg_defs range3_eval)

lemma zones_first_horizon: "zones_first (draws horizon_gauge)"
  by (simp add: draws_def horizon_gauge_def Let_def range3_eval)

lemma zones_first_gauges: "g \<in> set gauges \<Longrightarrow> zones_first (draws g)"
  using zones_first_thrust zones_first_cscg zones_first_fuel zones_first_compass
    zones_first_horizon
  by (auto simp: gauges_def named_gauge_defs)

lemma zones_first_index:
  "zones_first cs \<Longrightarrow> i < length cs \<Longrightarrow> j < length cs \<Longrightarrow> is_zone (cs ! i) \<Longrightarrow>
   is_inner_face (cs ! j) \<or> is_tick (cs ! j) \<Longrightarrow> i < j"
proof (induction cs arbitrary: i j)
  case Nil
  then show ?case by simp
next
  case (Cons c cs)
  show ?case
  proof (cases "is_inner_face c \<or> is_tick c")
    case True
    with Cons.prems(1) have nz: "\<not> list_ex is_zone cs" by simp
    have "\<not> is_zone c" using True by (cases c) auto
    with Cons.prems(4) obtain i' where i': "i = Suc i'" by (cases i) auto
    with Cons.prems(2,4) have "i' < length cs" "is_zone (cs ! i')" by auto
    with nz show ?thesis by (auto simp: list_ex_iff)
  next
    case False
    with Cons.prems(1) have zf: "zones_first cs" by simp
    from False Cons.prems(5) obtain j' where j': "j = Suc j'" by (cases j) auto
    show ?thesis
    proof (cases i)
      case 0
      then show ?thesis using j' by simp
    next
      case (Suc i')
      with Cons.prems j' have "i' < j'"
        using Cons.IH[OF zf, of i' j'] by auto
      then show ?thesis using Suc j' by simp
    qed
  qed
qed

lemma engine_draws_3_4:
  "engine_gauge \<in> set gauges \<and> 1 < length (draws engine_gauge) \<and> 5 < length (draws engine_gauge)
   \<and> is_zone (draws engine_gauge ! 1) \<and> is_inner_face (draws engine_gauge ! 4)
   \<and> is_tick (draws engine_gauge ! 5) \<and> is_zone (draws engine_gauge ! 3)"
  by (simp add: gauges_def draws_def engine_gauge_def cscg_defs Let_def range3_eval)

text \<open>
  C1: in each of the eight gauges of the run, every zone (pie slice) command stands at a
  smaller position of the draw sequence than the inner face circle and than every tick;
  the compass gauge has no zone at all.
\<close>

theorem zones_precede_face_and_ticks:
  assumes "g \<in> set gauges"
    and "i < length (draws g)" and "j < length (draws g)"
    and "is_zone (draws g ! i)"
    and "is_inner_face (draws g ! j) \<or> is_tick (draws g ! j)"
  shows "i < j"
  using zones_first_index [OF zones_first_gauges [OF assms(1)] assms(2-5)] .

theorem zones_precede_face_and_ticks_witness:
  "engine_gauge \<in> set gauges \<and> 3 < length (draws engine_gauge) \<and> 4 < length (draws engine_gauge)
   \<and> is_zone (draws engine_gauge ! 3) \<and> is_inner_face (draws engine_gauge ! 4) \<and> (3::nat) < 4"
  using zones_precede_face_and_ticks [of engine_gauge 3 4] engine_draws_3_4
  by simp

section \<open>Numbers of major and minor-step angles\<close>

text \<open>
  C3, as stated, fails: the standard arc has 9 major angles and 25 minor-step angles, and
  9 * 3 is 27.
\<close>

theorem tick_count_ratio_counterexample:
  "length (cg_angles ''standard'') * 3 \<noteq> length (cg_minor_angles ''standard'')
   \<and> length cscg_angles_original * 3 \<noteq> length cscg_minor_angles_original"
  by (simp add: cg_defs cscg_defs range3_eval)

text \<open>
  C3, amended: the arcs that include both ends (standard and fuel, in \<open>create_gauge\<close>
  and in the three gauges drawn with zones) have (majors - 1) * 3 + 1 minor-step angles;
  the compass arc, which leaves 360 out, has majors * 3.
\<close>

theorem tick_count_ratio:
  "(if gauge_type = ''compass''
    then length (cg_angles gauge_type) * 3 = length (cg_minor_angles gauge_type)
    else (length (cg_angles gauge_type) - 1) * 3 + 1 = length (cg_minor_angles gauge_type))
   \<and> (length thrust_angles_original - 1) * 3 + 1 = length thrust_minor_angles_original
   \<and> (length cscg_angles_original - 1) * 3 + 1 = length cscg_minor_angles_original
   \<and> (length fuel_angles - 1) * 3 + 1 = length fuel_minor_angles"
  by (simp add: cg_defs cscg_defs thrust_defs fuel_defs range3_eval)

section \<open>Zones: spans and overlaps\<close>

lemma zones_thrust: "zones_of (draws thrust_gauge) = [(150, 230), (230, 310), (310, 390)]"
  by (simp add: zones_of_def draws_def thrust_defs Let_def range3_eval)

lemma zones_cscg:
  "zones_of (draws (create_standard_color_gauge f t s)) = [(150, 230), (230, 310), (310, 390)]"
  by (simp add: zones_of_def draws_def cscg_defs Let_def range3_eval)

lemma zones_fuel: "zones_of (draws fuel_gauge) = [(270, 330), (330, 30), (30, 90)]"
  by (simp add: zones_of_def draws_def fuel_defs Let_def range3_eval)

lemma zones_family:
  "g \<in> set standard_color_family \<Longrightarrow> zones_of (draws g) = [(150, 230), (230, 310), (310, 390)]"
  using zones_thrust zones_cscg
  by (auto simp: standard_color_family_def named_gauge_defs)

lemma mod360_diff_le:
  fixes x y :: int
  assumes "y mod 360 \<le> x mod 360"
  shows "(x - y) mod 360 = x mod 360 - y mod 360"
proof -
  have "(x - y) mod 360 = (x mod 360 - y mod 360) mod 360"
    by (simp add: mod_diff_eq)
  moreover have "0 \<le> x mod 360 - y mod 360" using assms by simp
  moreover have "x mod 360 - y mod 360 < 360"
  proof -
    have "x mod 360 < 360" "0 \<le> y mod 360" by simp_all
    then show ?thesis by linarith
  qed
  ultimately show ?thesis by simp
qed

lemma overlap_iff: "overlap z z' \<longleftrightarrow> (\<exists>a. covers z a \<and> covers z' a)"
proof
  assume ov: "overlap z z'"
  then have pos: "0 < zone_span z" "0 < zone_span z'" by (simp_all add: overlap_def)
  from ov consider
      "(norm360 (fst z') - norm360 (fst z)) mod 360 < zone_span z"
    | "(norm360 (fst z) - norm360 (fst z')) mod 360 < zone_span z'"
    by (auto simp: overlap_def)
  then show "\<exists>a. covers z a \<and> covers z' a"
  proof cases
    case 1
    with pos have "covers z (norm360 (fst z')) \<and> covers z' (norm360 (fst z'))"
      by (simp add: covers_def)
    then show ?thesis ..
  next
    case 2
    with pos have "covers z (norm360 (fst z)) \<and> covers z' (norm360 (fst z))"
      by (simp add: covers_def)
    then show ?thesis ..
  qed
next
  assume "\<exists>a. covers z a \<and> covers z' a"
  then obtain a where c: "(a - norm360 (fst z)) mod 360 < zone_span z"
    and c': "(a - norm360 (fst z')) mod 360 < zone_span z'"
    by (auto simp: covers_def)
  let ?s = "norm360 (fst z)" and ?s' = "norm360 (fst z')"
  have nn: "0 \<le> (a - ?s) mod 360" "0 \<le> (a - ?s') mod 360" by simp_all
  with c c' have pos: "0 < zone_span z" "0 < zone_span z'" by linarith+
  have e1: "?s' - ?s = (a - ?s) - (a - ?s')" and e2: "?s - ?s' = (a - ?s') - (a - ?s)"
    by simp_all
  show "overlap z z'"
  proof (cases "(a - ?s') mod 360 \<le> (a - ?s) mod 360")
    case True
    have "(?s' - ?s) mod 360 = (a - ?s) mod 360 - (a - ?s') mod 360"
      unfolding e1 by (rule mod360_diff_le [OF True])
    with nn c have "(?s' - ?s) mod 360 < zone_span z" by linarith
    with pos show ?thesis by (simp add: overlap_def)
  next
    case False
    then have le: "(a - ?s) mod 360 \<le> (a - ?s') mod 360" by simp
    have "(?s - ?s') mod 360 = (a - ?s') mod 360 - (a - ?s) mod 360"
      unfolding e2 by (rule mod360_diff_le [OF le])
    with nn c' have "(?s - ?s') mod 360 < zone_span z'" by linarith
    with pos show ?thesis by (simp add: overlap_def)
  qed
qed

lemma zones_disjoint_iff:
  "zones_disjoint zs \<longleftrightarrow> (\<forall>(z, z') \<in> set (pairs zs). \<forall>a. \<not> (covers z a \<and> covers z' a))"
  by (auto simp: zones_disjoint_def list_all_iff overlap_iff)

text \<open>
  C4: each gauge of the thrust, engine, positive, weight, negative family has three zones;
  their spans, with the ends normalised modulo 360, add up to 240 degrees, and no angle is
  covered by two of them.
\<close>

theorem standard_color_zones_240:
  assumes "g \<in> set standard_color_family"
  shows "length (zones_of (draws g)) = 3
       \<and> sum_list (map zone_span (zones_of (draws g))) = 240
       \<and> (\<forall>(z, z') \<in> set (pairs (zones_of (draws g))). \<forall>a. \<not> (covers z a \<and> covers z' a))"
proof -
  have zs: "zones_of (draws g) = [(150, 230), (230, 310), (310, 390)]"
    using assms by (rule zones_family)
  have "zones_disjoint [(150, 230), (230, 310), (310, 390)]"
    by (simp add: zones_disjoint_def overlap_def zone_span_def norm360_def)
  then have "\<forall>(z, z') \<in> set (pairs (zones_of (draws g))). \<forall>a. \<not> (covers z a \<and> covers z' a)"
    unfolding zs zones_disjoint_iff .
  moreover have "sum_list (map zone_span (zones_of (draws g))) = 240"
    unfolding zs by (simp add: zone_span_def norm360_def)
  ultimately show ?thesis using zs by simp
qed

theorem standard_color_zones_240_witness:
  "engine_gauge \<in> set standard_color_family
   \<and> length (zones_of (draws engine_gauge)) = 3
   \<and> sum_list (map zone_span (zones_of (draws engine_gauge))) = 240
   \<and> ((230, 310), (310, 390)) \<in> set (pairs (zones_of (draws engine_gauge)))
   \<and> covers (310, 390) 20 \<and> \<not> covers (230, 310) 20"
proof -
  have m: "engine_gauge \<in> set standard_color_family"
    by (simp add: standard_color_family_def)
  have "((230, 310), (310, 390)) \<in> set (pairs (zones_of (draws engine_gauge)))"
    by (simp add: zones_cscg engine_gauge_def)
  moreover have "covers (310, 390) 20 \<and> \<not> covers (230, 310) 20"
    by (simp add: covers_def zone_span_def norm360_def)
  ultimately show ?thesis using standard_color_zones_240 [OF m] m by simp
qed

text \<open>
  C5: the fuel gauge has three zones; their spans, with the ends normalised modulo 360,
  add up to 180 degrees, and no angle is covered by two of them.
\<close>

theorem fuel_zones_180:
  "length (zones_of (draws fuel_gauge)) = 3
   \<and> sum_list (map zone_span (zones_of (draws fuel_gauge))) = 180
   \<and> (\<forall>(z, z') \<in> set (pairs (zones_of (draws fuel_gauge))). \<forall>a. \<not> (covers z a \<and> covers z' a))"
proof -
  have "zones_disjoint [(270, 330), (330, 30), (30, 90)]"
    by (simp add: zones_disjoint_def overlap_def zone_span_def norm360_def)
  then have "\<forall>(z, z') \<in> set (pairs (zones_of (draws fuel_gauge))). \<forall>a. \<not> (covers z a \<and> covers z' a)"
    unfolding zones_fuel zones_disjoint_iff .
  moreover have "sum_list (map zone_span (zones_of (draws fuel_gauge))) = 180"
    unfolding zones_fuel by (simp add: zone_span_def norm360_def)
  ultimately show ?thesis using zones_fuel by simp
qed

theorem fuel_zones_180_witness:
  "length (zones_of (draws fuel_gauge)) = 3
   \<and> sum_list (map zone_span (zones_of (draws fuel_gauge))) = 180
   \<and> ((330, 30), (30, 90)) \<in> set (pairs (zones_of (draws fuel_gauge)))
   \<and> covers (330, 30) 0 \<and> \<not> covers (30, 90) 0 \<and> covers (30, 90) 30 \<and> \<not> covers (330, 30) 30"
proof -
  have "((330, 30), (30, 90)) \<in> set (pairs (zones_of (draws fuel_gauge)))"
    by (simp add: zones_fuel)
  moreover have "covers (330, 30) 0 \<and> \<not> covers (30, 90) 0 \<and> covers (30, 90) 30 \<and> \<not> covers (330, 30) 30"
    by (simp add: covers_def zone_span_def norm360_def)
  ultimately show ?thesis using fuel_zones_180 by simp
qed

section \<open>Tick angles of the gauges drawn with zones\<close>

text \<open>
  The degrees handed to \<open>math.radians\<close> for the ticks and labels of the thrust gauge and of
  \<open>create_standard_color_gauge\<close> are those of the standard arc of \<open>create_gauge\<close> with
  90 + 180 added, coordinate by coordinate. This is a fact about the integer degrees only:
  the floating-point coordinates computed from them are outside the model.
\<close>

lemma polar_cscg:
  "polar_coords (draws (create_standard_color_gauge f t s)) =
     map (rotate_coord (90 + 180)) (polar_coords (draws (create_gauge f' ''standard'' t' s')))"
  by (simp add: polar_coords_def draws_def cscg_defs create_gauge_def cg_defs Let_def range3_eval)

lemma polar_thrust:
  "polar_coords (draws thrust_gauge) =
     map (rotate_coord (90 + 180)) (polar_coords (draws (create_gauge f' ''standard'' t' s')))"
  by (simp add: polar_coords_def draws_def thrust_defs create_gauge_def cg_defs Let_def range3_eval)

section \<open>Angle generation\<close>

text \<open>
  C6, as stated, fails in its last part: the fuel gauge that the script builds (lines 267
  to 291) draws ticks at 0 to 90 degrees, outside the range from 180 to 360, and its
  minor-step angles are not those of the fuel branch of \<open>create_gauge\<close>.
\<close>

theorem fuel_tick_range_counterexample:
  "\<not> list_all (in_native_frame ''fuel'')
       (major_tick_angles (draws fuel_gauge) @ minor_tick_angles (draws fuel_gauge))
   \<and> fuel_minor_angles \<noteq> cg_minor_angles ''fuel''"
  by (simp add: in_native_frame_def major_tick_angles_def minor_tick_angles_def draws_def
      fuel_defs cg_defs Let_def range3_eval)

text \<open>
  C6, amended: \<open>create_gauge\<close> generates the minor-step angles start, start + 10, ... up to
  and including the end, with (start, end) = (-120, 120) for the standard arc (25 angles)
  and (180, 360) for its fuel arc (19 angles), and 0 to 350 for the compass arc (36
  angles). The fuel gauge that is built generates the 19 angles 270, 280, ..., 350, 0, 10,
  ..., 90, from 270 through 0 to 90, and draws its major ticks at 270, 300, 330, 0, 30,
  60, 90.
\<close>

theorem minor_step_angle_sequences:
  "cg_minor_angles gauge_type =
     map (\<lambda>k. cg_start_angle gauge_type + 10 * int k)
       [0 ..< (if gauge_type = ''compass'' then 360 div 10
               else nat ((cg_end_angle gauge_type - cg_start_angle gauge_type) div 10 + 1))]
   \<and> length (cg_minor_angles gauge_type) =
       (if gauge_type = ''compass'' then 36 else if gauge_type = ''fuel'' then 19 else 25)
   \<and> (cg_start_angle gauge_type, cg_end_angle gauge_type) =
       (if gauge_type = ''compass'' then (0, 360) else if gauge_type = ''fuel'' then (180, 360)
        else (-120, 120))
   \<and> last (cg_minor_angles gauge_type) =
       (if gauge_type = ''compass'' then 350 else cg_end_angle gauge_type)
   \<and> fuel_minor_angles = map (\<lambda>k. (fuel_start_angle + 10 * int k) mod 360) [0 ..< 19]
   \<and> (fuel_start_angle, fuel_end_angle) = (270, 90)
   \<and> last fuel_minor_angles = fuel_end_angle
   \<and> minor_tick_angles (draws fuel_gauge) = [280, 290, 310, 320, 340, 350, 10, 20, 40, 50, 70, 80]
   \<and> major_tick_angles (draws fuel_gauge) = [270, 300, 330, 0, 30, 60, 90]"
  by (simp add: cg_defs fuel_defs fuel_start_angle_def fuel_end_angle_def range3_eval upt_rec
      major_tick_angles_def minor_tick_angles_def draws_def Let_def)

section \<open>The engine gauge\<close>

text \<open>
  C7: the engine gauge has 9 major ticks, the three labels 0, 50 and 100 at the angles of
  the major ticks 0, 4 and 8, and 3 zone commands, all of them before the first tick; its
  title is ENGINE and its subtitle Condition.
\<close>

theorem engine_gauge_scenario:
  "length (major_tick_angles (draws engine_gauge)) = 9
   \<and> labels_of (draws engine_gauge) =
       [(major_tick_angles (draws engine_gauge) ! 0, ''0''),
        (major_tick_angles (draws engine_gauge) ! 4, ''50''),
        (major_tick_angles (draws engine_gauge) ! 8, ''100'')]
   \<and> length (filter is_zone (draws engine_gauge)) = 3
   \<and> length (filter is_zone (takeWhile (\<lambda>c. \<not> is_tick c) (draws engine_gauge))) = 3
   \<and> filter is_title (draws engine_gauge) =
       [Text (Lit 200, Lit 70) ''ENGINE'' ''#000000'' ''mm'',
        Text (Lit 200, Lit 330) ''Condition'' ''#666666'' ''mm'']"
  by (simp add: engine_gauge_def cscg_defs major_tick_angles_def labels_of_def draws_def Let_def
      range3_eval)

section \<open>The fuel gauge\<close>

text \<open>
  C8, as stated, fails in the number of shapes: the icon is drawn with five commands, not
  four.
\<close>

theorem fuel_icon_primitives_counterexample:
  "length (overlay_of (draws fuel_gauge)) \<noteq> 4"
  by (simp add: overlay_of_def draws_def fuel_defs Let_def range3_eval)

text \<open>
  C8, amended: the fuel gauge has the labels F, five empty ones and E for 7 major ticks
  at 270, 300, 330, 0, 30, 60, 90 (a span of 180 degrees), F drawn at 270 and E at 90, and
  one icon of five shapes in four parts: body, nozzle and screen are one rectangle each,
  the droplet is an ellipse and a triangle.
\<close>

theorem fuel_gauge_scenario:
  "fuel_labels = [''F'', '''', '''', '''', '''', '''', ''E'']
   \<and> major_tick_angles (draws fuel_gauge) = [270, 300, 330, 0, 30, 60, 90]
   \<and> length (major_tick_angles (draws fuel_gauge)) = length fuel_labels
   \<and> zone_span (hd (major_tick_angles (draws fuel_gauge)), last (major_tick_angles (draws fuel_gauge))) = 180
   \<and> labels_of (draws fuel_gauge) = [(270, ''F''), (90, ''E'')]
   \<and> overlay_of (draws fuel_gauge) = fuel_icon
   \<and> fuel_icon =
       [Rectangle [120, 165, 160, 215] ''#666666'' (Some ''#333333'') None,
        Rectangle [115, 175, 120, 185] ''#666666'' (Some ''#333333'') None,
        Rectangle [128, 175, 152, 185] ''#ffffff'' (Some ''#333333'') (Some 1),
        Ellipse [134, 195, 146, 207] ''#666666'' None None,
        Polygon [(140, 187), (134, 195), (146, 195)] ''#666666'']
   \<and> length fuel_icon = 5"
  by (simp add: overlay_of_def major_tick_angles_def labels_of_def draws_def fuel_defs Let_def
      range3_eval zone_span_def norm360_def)

section \<open>Canvases and saved files\<close>

lemma cs_thrust:
  "filter is_canvas_or_save thrust_gauge =
     [New_image ''RGBA'' (400, 400) (255, 255, 255, 0), Save ''images/thrust-gauge.png'' ''PNG'']"
  by (simp add: thrust_defs Let_def range3_eval)

lemma cs_cscg:
  "filter is_canvas_or_save (create_standard_color_gauge f t s) =
     [New_image ''RGBA'' (400, 400) (255, 255, 255, 0), Save f ''PNG'']"
  by (simp add: cscg_defs Let_def range3_eval)

lemma cs_fuel:
  "filter is_canvas_or_save fuel_gauge =
     [New_image ''RGBA'' (400, 400) (255, 255, 255, 0), Save ''images/fuel-gauge.png'' ''PNG'']"
  by (simp add: fuel_defs Let_def range3_eval)

lemma cs_cg:
  "filter is_canvas_or_save (create_gauge f gt t s) =
     [New_image ''RGBA'' (400, 400) (255, 255, 255, 0), Save f ''PNG'']"
  by (simp add: create_gauge_def cg_defs Let_def range3_eval)

lemma cs_horizon:
  "filter is_canvas_or_save horizon_gauge =
     [New_image ''RGBA'' (400, 400) (255, 255, 255, 0), Save ''images/horizon-gauge.png'' ''PNG'']"
  by (simp add: horizon_gauge_def Let_def range3_eval)

text \<open>
  C9: the canvas creations and saves of the run alternate, eight times: each canvas is
  RGBA, 400 by 400, with the transparent background (255, 255, 255, 0), and is saved once
  as PNG under \<open>images/\<close> with its fixed name.
\<close>

theorem run_canvases_and_saves:
  "filter is_canvas_or_save run =
     concat (map (\<lambda>name. [New_image ''RGBA'' (400, 400) (255, 255, 255, 0),
                            Save (''images/'' @ name) ''PNG''])
       [''thrust-gauge.png'', ''engine-gauge.png'', ''positive-gauge.png'', ''weight-gauge.png'',
        ''negative-gauge.png'', ''fuel-gauge.png'', ''compass-gauge.png'', ''horizon-gauge.png''])"
  by (simp add: run_def named_gauge_defs cs_thrust cs_cscg cs_fuel cs_cg cs_horizon)

section \<open>The thrust gauge and \<open>create_standard_color_gauge\<close>\<close>

text \<open>
  C10: apart from the messages printed, the thrust code emits the events of
  \<open>create_standard_color_gauge\<close> called with the thrust file name, THRUST and Power; for
  any other arguments the draw commands differ at the positions 33 and 34 only, the title
  and the subtitle.
\<close>

theorem thrust_equals_standard_color_gauge:
  "filter (\<lambda>e. \<not> is_print e) thrust_gauge =
     filter (\<lambda>e. \<not> is_print e)
       (create_standard_color_gauge ''images/thrust-gauge.png'' ''THRUST'' ''Power'')
   \<and> draws thrust_gauge = draws (create_standard_color_gauge f ''THRUST'' ''Power'')
   \<and> filter (\<lambda>c. \<not> is_title c) (draws (create_standard_color_gauge f t s)) =
       filter (\<lambda>c. \<not> is_title c) (draws thrust_gauge)
   \<and> draws (create_standard_color_gauge f t s) =
       (draws thrust_gauge)
         [33 := Text (Lit 200, Lit 70) t ''#000000'' ''mm'',
          34 := Text (Lit 200, Lit 330) s ''#666666'' ''mm'']
   \<and> draws thrust_gauge ! 33 = Text (Lit 200, Lit 70) ''THRUST'' ''#000000'' ''mm''
   \<and> draws thrust_gauge ! 34 = Text (Lit 200, Lit 330) ''Power'' ''#666666'' ''mm''"
  by (simp add: draws_def thrust_defs cscg_defs Let_def range3_eval)

end
